theory Spec2Isabelle
  imports Main "HOL-Library.AList"
begin

section \<open>Strings and exceptions of the Python runtime\<close>

text \<open>
  Python text is a list of 8-bit characters: the request line and the headers reach the
  handler decoded as ISO-8859-1, so each \<^typ>\<open>char\<close> is one code point below 256.
  Byte strings have the same HOL type; where the source tells the two apart
  (\<^verbatim>\<open>isinstance(content, str)\<close>) the model carries a tag.

  An exception is a value. The \<^verbatim>\<open>except\<close> clauses of both services tell three
  classes apart: \<^verbatim>\<open>requests.exceptions.RequestException\<close> (with its subclasses:
  connection errors, timeouts), \<^verbatim>\<open>kafka.errors.KafkaError\<close>, and every other
  subclass of \<^verbatim>\<open>Exception\<close>. The string is \<^verbatim>\<open>str(e)\<close>.
\<close>

datatype py_exception =
    RequestException string
  | KafkaError string
  | Exception string

fun str_of_exception :: "py_exception \<Rightarrow> string" where
  "str_of_exception (RequestException m) = m"
| "str_of_exception (KafkaError m) = m"
| "str_of_exception (Exception m) = m"

definition startswith :: "string \<Rightarrow> string \<Rightarrow> bool" where
  "startswith s p = (take (length p) s = p)"

definition digit_char :: "nat \<Rightarrow> char" where
  "digit_char d = ''0123456789'' ! d"

fun str_nat :: "nat \<Rightarrow> string" where
  "str_nat n = (if n < 10 then [digit_char n]
                else str_nat (n div 10) @ [digit_char (n mod 10)])"

declare str_nat.simps [simp del]

text \<open>\<^verbatim>\<open>str(i)\<close> and \<^verbatim>\<open>f"{i}"\<close> for an integer.\<close>

definition str_int :: "int \<Rightarrow> string" where
  "str_int i = (if i < 0 then CHR ''-'' # str_nat (nat (- i)) else str_nat (nat i))"

subsection \<open>The \<^verbatim>\<open>%\<close> operator with no arguments\<close>

text \<open>
  \<^verbatim>\<open>log_message(self, format, *args)\<close> evaluates \<^verbatim>\<open>format % args\<close>. Every call in
  the proxy passes one already formatted string and no further argument, so
  \<^verbatim>\<open>args\<close> is the empty tuple. The operator still scans the string for conversion
  specifications: \<^verbatim>\<open>%\<close>, an optional mapping key, flags, a width, a precision, a
  length modifier and a conversion character. Only \<^verbatim>\<open>%%\<close> needs no argument and
  yields one \<^verbatim>\<open>%\<close>; a mapping key, a \<^verbatim>\<open>*\<close> and every conversion character ask
  for an argument and raise \<^verbatim>\<open>TypeError\<close>, and a specification cut off by the end of
  the string or with an oversized width or precision raises \<^verbatim>\<open>ValueError\<close>. The
  scanner is a state machine over the characters; the state says which part of a
  specification has been read. The bounds on width and precision are those of a 64-bit
  CPython 3.
\<close>

datatype fmt_state =
    Plain
  | Flags
  | Width int
  | Dot
  | Prec int
  | Conv

definition is_flag :: "char \<Rightarrow> bool" where
  "is_flag c = (c \<in> set ''-+ #0'')"

definition is_digit :: "char \<Rightarrow> bool" where
  "is_digit c = (c \<in> set ''0123456789'')"

definition digit_val :: "char \<Rightarrow> int" where
  "digit_val c = (of_char c :: int) - 48"

definition is_length_modifier :: "char \<Rightarrow> bool" where
  "is_length_modifier c = (c \<in> set ''hlL'')"

definition ssize_max :: int where
  "ssize_max = 2 ^ 63 - 1"

definition int_max :: int where
  "int_max = 2 ^ 31 - 1"

definition not_enough :: py_exception where
  "not_enough = Exception ''not enough arguments for format string''"

fun percent_format :: "fmt_state \<Rightarrow> string \<Rightarrow> py_exception + string" where
  "percent_format st [] =
     (if st = Plain then Inr [] else Inl (Exception ''incomplete format''))"
| "percent_format st (c # cs) =
     (case st of
        Plain \<Rightarrow>
          (if c = CHR ''%'' then
             (case cs of
                [] \<Rightarrow> Inl (Exception ''incomplete format'')
              | d # ds \<Rightarrow>
                  if d = CHR ''%'' then map_sum id ((#) CHR ''%'') (percent_format Plain ds)
                  else if d = CHR ''('' then Inl (Exception ''format requires a mapping'')
                  else percent_format Flags cs)
           else map_sum id ((#) c) (percent_format Plain cs))
      | Flags \<Rightarrow>
          (if is_flag c then percent_format Flags cs
           else if c = CHR ''*'' then Inl not_enough
           else if is_digit c then percent_format (Width (digit_val c)) cs
           else if c = CHR ''.'' then percent_format Dot cs
           else if is_length_modifier c then percent_format Conv cs
           else Inl not_enough)
      | Width w \<Rightarrow>
          (if is_digit c then
             (if w > (ssize_max - digit_val c) div 10 then Inl (Exception ''width too big'')
              else percent_format (Width (w * 10 + digit_val c)) cs)
           else if c = CHR ''.'' then percent_format Dot cs
           else if is_length_modifier c then percent_format Conv cs
           else Inl not_enough)
      | Dot \<Rightarrow>
          (if c = CHR ''*'' then Inl not_enough
           else if is_digit c then percent_format (Prec (digit_val c)) cs
           else if is_length_modifier c then percent_format Conv cs
           else Inl not_enough)
      | Prec p \<Rightarrow>
          (if is_digit c then
             (if p > (int_max - digit_val c) div 10 then Inl (Exception ''precision too big'')
              else percent_format (Prec (p * 10 + digit_val c)) cs)
           else if is_length_modifier c then percent_format Conv cs
           else Inl not_enough)
      | Conv \<Rightarrow> Inl not_enough)"

section \<open>The proxy (\<^verbatim>\<open>src/microservices/proxy/main.py\<close>)\<close>

text \<open>
  \<^verbatim>\<open>ProxyHandler.__init__\<close> reads five settings from the environment; the record
  holds them after parsing. Nothing in the source restricts the percentage to
  \<open>[0, 100]\<close>.
\<close>

record config =
  monolith_url :: string
  movies_service_url :: string
  events_service_url :: string
  gradual_migration :: bool
  movies_migration_percent :: int

text \<open>The defaults of the \<^verbatim>\<open>os.getenv\<close> calls.\<close>

definition default_config :: config where
  "default_config =
     \<lparr> monolith_url = ''http://monolith:8080'',
       movies_service_url = ''http://movies-service:8081'',
       events_service_url = ''http://events-service:8082'',
       gradual_migration = False,
       movies_migration_percent = 0 \<rparr>"

text \<open>
  \<^verbatim>\<open>log_message\<close> prints one line, or raises what \<^verbatim>\<open>format % args\<close> raises. The
  result is the printed line.
\<close>

definition log_message :: "string \<Rightarrow> py_exception + string" where
  "log_message format =
     (case percent_format Plain format of
        Inl e \<Rightarrow> Inl e
      | Inr s \<Rightarrow> Inr (''[Proxy] '' @ s))"

text \<open>
  \<^verbatim>\<open>_determine_target(self, path)\<close>. The second argument is the value that
  \<^verbatim>\<open>random.randint(0, 99)\<close> returns when the branch draws it. The result is the
  list of lines printed on the way and the returned URL, or the exception raised.
\<close>

definition determine_target ::
  "config \<Rightarrow> int \<Rightarrow> string \<Rightarrow> py_exception + (string list \<times> string)" where
  "determine_target cfg random_percent path =
     (if path = ''/api/movies/health'' then Inr ([], movies_service_url cfg @ path)
      else if startswith path ''/api/movies'' then
        (if gradual_migration cfg then
           (if random_percent < movies_migration_percent cfg then
              (case log_message (''Routing to movies-service (random: ''
                       @ str_int random_percent @ '' < ''
                       @ str_int (movies_migration_percent cfg) @ '')'') of
                 Inl e \<Rightarrow> Inl e
               | Inr line \<Rightarrow> Inr ([line], movies_service_url cfg @ path))
            else
              (case log_message (''Routing to monolith (random: ''
                       @ str_int random_percent @ '' >= ''
                       @ str_int (movies_migration_percent cfg) @ '')'') of
                 Inl e \<Rightarrow> Inl e
               | Inr line \<Rightarrow> Inr ([line], monolith_url cfg @ path)))
         else Inr ([], monolith_url cfg @ path))
      else if startswith path ''/api/events'' then Inr ([], events_service_url cfg @ path)
      else Inr ([], monolith_url cfg @ path))"

subsection \<open>Requests, responses and the environment of the handler\<close>

text \<open>
  The handler reads three attributes of the base class: \<^verbatim>\<open>self.command\<close>,
  \<^verbatim>\<open>self.path\<close> and \<^verbatim>\<open>self.headers\<close>. The headers are the lines of the request in
  their order, a name possibly more than once.
\<close>

record request =
  command :: string
  path :: string
  headers :: "(string \<times> string) list"

text \<open>The keyword arguments of \<^verbatim>\<open>requests.request\<close> (\<open>out_method\<close> for \<^verbatim>\<open>method\<close>,
  \<open>out_headers\<close> for \<^verbatim>\<open>headers\<close>); \<^verbatim>\<open>data\<close> is \<^verbatim>\<open>None\<close> or the body.\<close>

record outbound_request =
  out_method :: string
  url :: string
  out_headers :: "(string \<times> string) list"
  data :: "string option"
  timeout :: int

text \<open>
  What the handler reads of the \<^verbatim>\<open>requests\<close> response: \<^verbatim>\<open>status_code\<close>,
  \<^verbatim>\<open>content\<close> (bytes) and \<^verbatim>\<open>dict(response.headers)\<close>. A Python dictionary is an
  association list in insertion order; a lookup takes the first pair with the key.
\<close>

record downstream_response =
  status_code :: int
  content :: string
  resp_headers :: "(string \<times> string) list"

text \<open>
  One response written to the client: the code given to \<^verbatim>\<open>send_response\<close>, the
  \<^verbatim>\<open>send_header\<close> calls of the handler in their order, and the bytes written after
  \<^verbatim>\<open>end_headers\<close>. The status line and the \<^verbatim>\<open>Server\<close> and \<^verbatim>\<open>Date\<close> lines that the
  base class adds on its own are not part of the record.
\<close>

record client_response =
  code :: int
  header_lines :: "(string \<times> string) list"
  body :: string

text \<open>The argument \<^verbatim>\<open>content\<close> of \<^verbatim>\<open>_send_response\<close> is a \<^verbatim>\<open>str\<close> or \<^verbatim>\<open>bytes\<close>.\<close>

datatype payload = Text string | Bytes string

text \<open>
  What a handler does, in order: lines printed by the \<^verbatim>\<open>log_message\<close> calls written
  in the handler, calls of \<^verbatim>\<open>requests.request\<close>, and responses written to the client.
  A run of the handler is the list of its effects and the exception that leaves it, if
  any. The base class logs the request line on every \<^verbatim>\<open>send_response\<close>, through
  \<^verbatim>\<open>log_message\<close> with a format and its three arguments; that call cannot raise, and
  its line is not listed in a run.
\<close>

datatype effect =
    Printed string
  | Requested outbound_request
  | Sent client_response

type_synonym run = "effect list \<times> py_exception option"

text \<open>
  The library calls whose outcome the handler does not decide: \<^verbatim>\<open>int(s)\<close> on a header
  value, \<^verbatim>\<open>self.rfile.read(n)\<close>, and \<^verbatim>\<open>requests.request(...)\<close>. Each returns a value
  or raises. Writing to the client is taken to succeed.
\<close>

record environment =
  py_int :: "string \<Rightarrow> py_exception + int"
  rfile_read :: "int \<Rightarrow> py_exception + string"
  requests_request :: "outbound_request \<Rightarrow> py_exception + downstream_response"

subsection \<open>Text functions\<close>

text \<open>
  \<^verbatim>\<open>str.lower\<close> on code points below 256: the letters A to Z and the accented capitals
  U+00C0 to U+00DE (without the multiplication sign U+00D7) move up by 32.
\<close>

definition lower_char :: "char \<Rightarrow> char" where
  "lower_char c =
     (let n = (of_char c :: nat) in
      if (65 \<le> n \<and> n \<le> 90) \<or> (192 \<le> n \<and> n \<le> 222 \<and> n \<noteq> 215)
      then char_of (n + 32) else c)"

definition lower :: "string \<Rightarrow> string" where
  "lower s = map lower_char s"

text \<open>\<^verbatim>\<open>str.encode('utf-8')\<close> on code points below 256: one byte below 128, else two.\<close>

definition encode_utf8 :: "string \<Rightarrow> string" where
  "encode_utf8 s =
     concat (map (\<lambda>c. let n = (of_char c :: nat) in
                        if n < 128 then [c]
                        else [char_of (192 + n div 64), char_of (128 + n mod 64)]) s)"

text \<open>
  \<^verbatim>\<open>self.headers.get(name)\<close>: the value of the first line whose name equals
  \<^verbatim>\<open>name\<close> without regard to case, or \<^verbatim>\<open>None\<close>.
\<close>

fun headers_get :: "(string \<times> string) list \<Rightarrow> string \<Rightarrow> string option" where
  "headers_get [] name = None"
| "headers_get ((h, v) # hs) name =
     (if lower h = lower name then Some v else headers_get hs name)"

subsection \<open>Sending a response\<close>

text \<open>
  \<^verbatim>\<open>_send_response(self, status_code, content, headers=None, content_type=None)\<close>.
  \<^verbatim>\<open>if content_type\<close> and \<^verbatim>\<open>if headers\<close> are truth tests: \<^verbatim>\<open>None\<close>, the empty string
  and the empty dictionary fail them. \<^verbatim>\<open>'Content-Type' in headers\<close> compares the keys
  of a plain dictionary, with regard to case. A \<^verbatim>\<open>str\<close> content is encoded before its
  length is taken.
\<close>

definition content_type_line ::
  "payload \<Rightarrow> (string \<times> string) list option \<Rightarrow> string option \<Rightarrow> string" where
  "content_type_line content_arg hdrs content_type =
     (case content_type of
        Some (c # cs) \<Rightarrow> c # cs
      | _ \<Rightarrow>
         (case (case hdrs of Some (h # hs) \<Rightarrow> map_of (h # hs) ''Content-Type'' | _ \<Rightarrow> None) of
            Some v \<Rightarrow> v
          | None \<Rightarrow>
             (case content_arg of
                Text _ \<Rightarrow> ''text/plain; charset=utf-8''
              | Bytes _ \<Rightarrow> ''application/json'')))"

definition relayed_lines :: "(string \<times> string) list option \<Rightarrow> (string \<times> string) list" where
  "relayed_lines hdrs =
     (case hdrs of
        None \<Rightarrow> []
      | Some hs \<Rightarrow>
          filter (\<lambda>(header, value).
                    lower header \<notin> set [''content-type'', ''content-length'', ''transfer-encoding''])
                 hs)"

definition encoded :: "payload \<Rightarrow> string" where
  "encoded content_arg = (case content_arg of Text s \<Rightarrow> encode_utf8 s | Bytes b \<Rightarrow> b)"

definition send_response ::
  "int \<Rightarrow> payload \<Rightarrow> (string \<times> string) list option \<Rightarrow> string option \<Rightarrow> client_response"
  where
  "send_response status content_arg hdrs content_type =
     \<lparr> code = status,
       header_lines =
         (''Content-Type'', content_type_line content_arg hdrs content_type)
           # relayed_lines hdrs
           @ [(''Content-Length'', str_int (int (length (encoded content_arg))))],
       body = encoded content_arg \<rparr>"

text \<open>\<^verbatim>\<open>_send_error_response(self, status_code, message)\<close>.\<close>

definition send_error_response :: "int \<Rightarrow> string \<Rightarrow> client_response" where
  "send_error_response status message =
     send_response status (Text (''{\"error\": \"'' @ message @ ''\"}'')) None
       (Some ''application/json'')"

subsection \<open>Relaying\<close>

text \<open>
  Lines 71 to 74 of \<^verbatim>\<open>_proxy_request\<close>: the body is read when the request has a
  non-empty \<^verbatim>\<open>Content-Length\<close> value.
\<close>

definition read_body :: "environment \<Rightarrow> request \<Rightarrow> py_exception + string option" where
  "read_body env req =
     (case headers_get (headers req) ''Content-Length'' of
        Some (c # cs) \<Rightarrow>
          (case py_int env (c # cs) of
             Inl e \<Rightarrow> Inl e
           | Inr n \<Rightarrow>
               (case rfile_read env n of
                  Inl e \<Rightarrow> Inl e
                | Inr b \<Rightarrow> Inr (Some b)))
      | _ \<Rightarrow> Inr None)"

text \<open>
  Lines 76 to 79: the dictionary of outbound headers. An assignment to a key that is
  present replaces its value in place, a new key goes to the end.
\<close>

definition forward_headers :: "(string \<times> string) list \<Rightarrow> (string \<times> string) list" where
  "forward_headers hs =
     fold (\<lambda>(header, value) d.
             if lower header \<notin> set [''host'', ''connection'', ''content-length'']
             then AList.update header value d else d)
          hs []"

definition outbound :: "request \<Rightarrow> string \<Rightarrow> string option \<Rightarrow> outbound_request" where
  "outbound req target_url b =
     \<lparr> out_method = command req, url = target_url, out_headers = forward_headers (headers req),
       data = b, timeout = 30 \<rparr>"

text \<open>The \<^verbatim>\<open>try\<close> block of \<^verbatim>\<open>_proxy_request\<close>, up to the exception it raises.\<close>

definition relay :: "environment \<Rightarrow> request \<Rightarrow> string \<Rightarrow> run" where
  "relay env req target_url =
     (case read_body env req of
        Inl e \<Rightarrow> ([], Some e)
      | Inr b \<Rightarrow>
          (case requests_request env (outbound req target_url b) of
             Inl e \<Rightarrow> ([Requested (outbound req target_url b)], Some e)
           | Inr response \<Rightarrow>
               ([Requested (outbound req target_url b),
                 Sent (send_response (status_code response) (Bytes (content response))
                         (Some (resp_headers response)) None)],
                None)))"

text \<open>
  \<^verbatim>\<open>_proxy_request(self, target_url)\<close>: the \<^verbatim>\<open>try\<close> block with its two handlers. An
  exception raised inside a handler leaves the method.
\<close>

definition proxy_request :: "environment \<Rightarrow> request \<Rightarrow> string \<Rightarrow> run" where
  "proxy_request env req target_url =
     (case relay env req target_url of
        (effects, None) \<Rightarrow> (effects, None)
      | (effects, Some (RequestException m)) \<Rightarrow>
          (case log_message (''Error proxying request to '' @ target_url @ '': '' @ m) of
             Inl e \<Rightarrow> (effects, Some e)
           | Inr line \<Rightarrow>
               (effects @ [Printed line, Sent (send_error_response 502 (''Bad Gateway: '' @ m))],
                None))
      | (effects, Some e) \<Rightarrow>
          (case log_message (''Unexpected error: '' @ str_of_exception e) of
             Inl e' \<Rightarrow> (effects, Some e')
           | Inr line \<Rightarrow>
               (effects @ [Printed line, Sent (send_error_response 500 ''Internal Server Error'')],
                None)))"

subsection \<open>The request handler\<close>

text \<open>
  \<^verbatim>\<open>_handle_request(self)\<close>. \<^verbatim>\<open>if not target_url\<close> holds for the empty string only.
\<close>

definition handle_request :: "config \<Rightarrow> int \<Rightarrow> environment \<Rightarrow> request \<Rightarrow> run" where
  "handle_request cfg random_percent env req =
     (if path req = ''/health'' then
        ([Sent (send_response 200 (Text ''Strangler Fig Proxy is healthy'') None
                  (Some ''text/plain''))], None)
      else
        (case determine_target cfg random_percent (path req) of
           Inl e \<Rightarrow> ([], Some e)
         | Inr (printed, target_url) \<Rightarrow>
             if target_url = [] then
               (map Printed printed @ [Sent (send_error_response 404 ''Not Found'')], None)
             else
               (case proxy_request env req target_url of
                  (effects, raised) \<Rightarrow> (map Printed printed @ effects, raised))))"

definition do_GET :: "config \<Rightarrow> int \<Rightarrow> environment \<Rightarrow> request \<Rightarrow> run" where
  "do_GET = handle_request"

definition do_POST :: "config \<Rightarrow> int \<Rightarrow> environment \<Rightarrow> request \<Rightarrow> run" where
  "do_POST = handle_request"

definition do_PUT :: "config \<Rightarrow> int \<Rightarrow> environment \<Rightarrow> request \<Rightarrow> run" where
  "do_PUT = handle_request"

definition do_DELETE :: "config \<Rightarrow> int \<Rightarrow> environment \<Rightarrow> request \<Rightarrow> run" where
  "do_DELETE = handle_request"

text \<open>
  The base class calls the method named \<^verbatim>\<open>do_\<close> followed by the command. The class
  defines four; for any other command the base class answers by itself and no code of
  the handler runs (\<open>None\<close>).
\<close>

definition dispatch :: "config \<Rightarrow> int \<Rightarrow> environment \<Rightarrow> request \<Rightarrow> run option" where
  "dispatch cfg random_percent env req =
     (if command req = ''GET'' then Some (do_GET cfg random_percent env req)
      else if command req = ''POST'' then Some (do_POST cfg random_percent env req)
      else if command req = ''PUT'' then Some (do_PUT cfg random_percent env req)
      else if command req = ''DELETE'' then Some (do_DELETE cfg random_percent env req)
      else None)"

subsection \<open>Sample backends\<close>

text \<open>
  Two environments for concrete runs: a backend that answers every call with the same
  response, and one that refuses the connection. In both, \<^verbatim>\<open>int\<close> yields 2 and the
  request body is \<^verbatim>\<open>{}\<close>.
\<close>

definition sample_response :: downstream_response where
  "sample_response =
     \<lparr> status_code = 200, content = ''ok'',
       resp_headers = [(''Connection'', ''close''), (''content-type'', ''text/html''),
                       (''X-Served-By'', ''movies'')] \<rparr>"

definition reachable_backend :: environment where
  "reachable_backend =
     \<lparr> py_int = (\<lambda>s. Inr 2), rfile_read = (\<lambda>n. Inr ''{}''),
       requests_request = (\<lambda>ob. Inr sample_response) \<rparr>"

definition unreachable_backend :: environment where
  "unreachable_backend =
     \<lparr> py_int = (\<lambda>s. Inr 2), rfile_read = (\<lambda>n. Inr ''{}''),
       requests_request = (\<lambda>ob. Inl (RequestException ''Connection refused'')) \<rparr>"

section \<open>The events service (\<^verbatim>\<open>src/microservices/events/main.py\<close>)\<close>

text \<open>
  A decoded JSON value. Python decodes a number without fraction and exponent to an
  \<^verbatim>\<open>int\<close> and any other number to a \<^verbatim>\<open>float\<close>; the type \<open>'f\<close> stands for the floats,
  of which the handlers only ask whether they are zero. An object is a dictionary: an
  association list with a lookup.
\<close>

datatype 'f json =
    JNull
  | JBool bool
  | JInt int
  | JFloat 'f
  | JStr string
  | JArr "'f json list"
  | JObj "(string \<times> 'f json) list"

text \<open>
  What a handler takes from outside: the outcome of \<^verbatim>\<open>request.get_json()\<close> (a value,
  \<^verbatim>\<open>None\<close> as \<open>JNull\<close>, or an exception), the zero test of floats, \<^verbatim>\<open>str\<close> on a decoded
  value (also what an f-string applies), \<^verbatim>\<open>uuid.uuid4().hex\<close>,
  \<^verbatim>\<open>datetime.utcnow().isoformat()\<close>, and the outcome of \<^verbatim>\<open>producer.send(...)\<close> followed
  by \<^verbatim>\<open>future.get(timeout=10)\<close>: partition and offset, or an exception.
\<close>

record 'f events_env =
  get_json :: "py_exception + 'f json"
  float_nonzero :: "'f \<Rightarrow> bool"
  py_str :: "'f json \<Rightarrow> string"
  uuid4_hex :: string
  utcnow_isoformat :: string
  publish :: "py_exception + (int \<times> int)"

text \<open>The pair returned to Flask: \<^verbatim>\<open>jsonify(...)\<close> and the status.\<close>

record 'f flask_response =
  status :: int
  json_body :: "'f json"

text \<open>
  The result of a handler: its response and the calls of \<^verbatim>\<open>producer.send\<close> it made,
  each with topic, value and key.
\<close>

type_synonym 'f outcome = "'f flask_response \<times> (string \<times> 'f json \<times> string) list"

text \<open>\<^verbatim>\<open>not data\<close> is the negation of Python's truth value.\<close>

fun truthy :: "('f \<Rightarrow> bool) \<Rightarrow> 'f json \<Rightarrow> bool" where
  "truthy nz JNull = False"
| "truthy nz (JBool b) = b"
| "truthy nz (JInt i) = (i \<noteq> 0)"
| "truthy nz (JFloat x) = nz x"
| "truthy nz (JStr s) = (s \<noteq> [])"
| "truthy nz (JArr xs) = (xs \<noteq> [])"
| "truthy nz (JObj kvs) = (kvs \<noteq> [])"

fun contains :: "string \<Rightarrow> string \<Rightarrow> bool" where
  "contains [] sub = (sub = [])"
| "contains (c # cs) sub = (startswith (c # cs) sub \<or> contains cs sub)"

text \<open>
  \<^verbatim>\<open>field in data\<close>: a key test on a dictionary, a membership test on a list, a
  substring test on a string, and a \<^verbatim>\<open>TypeError\<close> on a number or a boolean.
\<close>

fun py_in :: "string \<Rightarrow> 'f json \<Rightarrow> py_exception + bool" where
  "py_in field (JObj kvs) = Inr (map_of kvs field \<noteq> None)"
| "py_in field (JArr xs) = Inr (JStr field \<in> set xs)"
| "py_in field (JStr s) = Inr (contains s field)"
| "py_in field _ = Inl (Exception ''argument is not iterable'')"

text \<open>
  \<^verbatim>\<open>data[key]\<close> with a string key: the value in a dictionary (\<^verbatim>\<open>KeyError\<close> when the
  key is absent), a \<^verbatim>\<open>TypeError\<close> on every other value.
\<close>

fun py_getitem :: "'f json \<Rightarrow> string \<Rightarrow> py_exception + 'f json" where
  "py_getitem (JObj kvs) key =
     (case map_of kvs key of Some v \<Rightarrow> Inr v | None \<Rightarrow> Inl (Exception key))"
| "py_getitem _ key = Inl (Exception ''indices must be integers'')"

text \<open>
  The loop over \<^verbatim>\<open>required_fields\<close>: the first field that is not in \<^verbatim>\<open>data\<close>, if
  any.
\<close>

fun first_missing :: "string list \<Rightarrow> 'f json \<Rightarrow> py_exception + string option" where
  "first_missing [] d = Inr None"
| "first_missing (field # others) d =
     (case py_in field d of
        Inl e \<Rightarrow> Inl e
      | Inr present \<Rightarrow> if \<not> present then Inr (Some field) else first_missing others d)"

text \<open>
  The two \<^verbatim>\<open>except\<close> clauses, the same in the three handlers up to the logged text.
\<close>

definition error_body :: "string \<Rightarrow> 'f json" where
  "error_body message = JObj [(''error'', JStr message)]"

definition on_exception :: "py_exception \<Rightarrow> 'f flask_response" where
  "on_exception e =
     (case e of
        KafkaError _ \<Rightarrow> \<lparr> status = 500, json_body = error_body ''Failed to send event to Kafka'' \<rparr>
      | _ \<Rightarrow> \<lparr> status = 500, json_body = error_body ''Internal server error'' \<rparr>)"

definition success_body :: "int \<Rightarrow> int \<Rightarrow> 'f json \<Rightarrow> 'f json" where
  "success_body part offset event =
     JObj [(''status'', JStr ''success''), (''partition'', JInt part),
           (''offset'', JInt offset), (''event'', event)]"

definition movie_required_fields :: "string list" where
  "movie_required_fields = [''movie_id'', ''title'', ''action'']"

definition user_required_fields :: "string list" where
  "user_required_fields = [''user_id'', ''action'', ''timestamp'']"

definition payment_required_fields :: "string list" where
  "payment_required_fields = [''payment_id'', ''user_id'', ''amount'', ''status'', ''timestamp'']"

text \<open>\<^verbatim>\<open>create_movie_event()\<close>, route \<^verbatim>\<open>POST /api/events/movie\<close>.\<close>

definition create_movie_event :: "'f events_env \<Rightarrow> 'f outcome" where
  "create_movie_event env =
     (case get_json env of
        Inl e \<Rightarrow> (on_exception e, [])
      | Inr d \<Rightarrow>
          if \<not> truthy (float_nonzero env) d then
            (\<lparr> status = 400, json_body = error_body ''Request body is required'' \<rparr>, [])
          else
            (case first_missing movie_required_fields d of
               Inl e \<Rightarrow> (on_exception e, [])
             | Inr (Some field) \<Rightarrow>
                 (\<lparr> status = 400,
                    json_body = error_body (''Missing required field: '' @ field) \<rparr>, [])
             | Inr None \<Rightarrow>
                 (case py_getitem d ''movie_id'' of
                    Inl e \<Rightarrow> (on_exception e, [])
                  | Inr movie_id \<Rightarrow>
                      (case py_getitem d ''action'' of
                         Inl e \<Rightarrow> (on_exception e, [])
                       | Inr action \<Rightarrow>
                           (let event_id = ''movie-'' @ py_str env movie_id @ ''-''
                                  @ py_str env action @ ''-'' @ take 8 (uuid4_hex env);
                                event = JObj [(''id'', JStr event_id), (''type'', JStr ''movie''),
                                              (''timestamp'', JStr (utcnow_isoformat env @ ''Z'')),
                                              (''payload'', d)];
                                sent = [(''movie-events'', event, py_str env movie_id)]
                            in case publish env of
                                 Inl e \<Rightarrow> (on_exception e, sent)
                               | Inr (part, offset) \<Rightarrow>
                                   (\<lparr> status = 201,
                                      json_body = success_body part offset event \<rparr>,
                                    sent))))))"

text \<open>\<^verbatim>\<open>create_user_event()\<close>, route \<^verbatim>\<open>POST /api/events/user\<close>.\<close>

definition create_user_event :: "'f events_env \<Rightarrow> 'f outcome" where
  "create_user_event env =
     (case get_json env of
        Inl e \<Rightarrow> (on_exception e, [])
      | Inr d \<Rightarrow>
          if \<not> truthy (float_nonzero env) d then
            (\<lparr> status = 400, json_body = error_body ''Request body is required'' \<rparr>, [])
          else
            (case first_missing user_required_fields d of
               Inl e \<Rightarrow> (on_exception e, [])
             | Inr (Some field) \<Rightarrow>
                 (\<lparr> status = 400,
                    json_body = error_body (''Missing required field: '' @ field) \<rparr>, [])
             | Inr None \<Rightarrow>
                 (case py_getitem d ''user_id'' of
                    Inl e \<Rightarrow> (on_exception e, [])
                  | Inr user_id \<Rightarrow>
                      (case py_getitem d ''action'' of
                         Inl e \<Rightarrow> (on_exception e, [])
                       | Inr action \<Rightarrow>
                           (case py_getitem d ''timestamp'' of
                              Inl e \<Rightarrow> (on_exception e, [])
                            | Inr timestamp \<Rightarrow>
                                (let event_id = ''user-'' @ py_str env user_id @ ''-''
                                       @ py_str env action @ ''-'' @ take 8 (uuid4_hex env);
                                     event = JObj [(''id'', JStr event_id), (''type'', JStr ''user''),
                                                   (''timestamp'', timestamp), (''payload'', d)];
                                     sent = [(''user-events'', event, py_str env user_id)]
                                 in case publish env of
                                      Inl e \<Rightarrow> (on_exception e, sent)
                                    | Inr (part, offset) \<Rightarrow>
                                        (\<lparr> status = 201,
                                           json_body = success_body part offset event \<rparr>,
                                         sent)))))))"

text \<open>
  \<^verbatim>\<open>create_payment_event()\<close>, route \<^verbatim>\<open>POST /api/events/payment\<close>. The message key is
  the user id.
\<close>

definition create_payment_event :: "'f events_env \<Rightarrow> 'f outcome" where
  "create_payment_event env =
     (case get_json env of
        Inl e \<Rightarrow> (on_exception e, [])
      | Inr d \<Rightarrow>
          if \<not> truthy (float_nonzero env) d then
            (\<lparr> status = 400, json_body = error_body ''Request body is required'' \<rparr>, [])
          else
            (case first_missing payment_required_fields d of
               Inl e \<Rightarrow> (on_exception e, [])
             | Inr (Some field) \<Rightarrow>
                 (\<lparr> status = 400,
                    json_body = error_body (''Missing required field: '' @ field) \<rparr>, [])
             | Inr None \<Rightarrow>
                 (case py_getitem d ''payment_id'' of
                    Inl e \<Rightarrow> (on_exception e, [])
                  | Inr payment_id \<Rightarrow>
                      (case py_getitem d ''status'' of
                         Inl e \<Rightarrow> (on_exception e, [])
                       | Inr payment_status \<Rightarrow>
                           (case py_getitem d ''timestamp'' of
                              Inl e \<Rightarrow> (on_exception e, [])
                            | Inr timestamp \<Rightarrow>
                                (case py_getitem d ''user_id'' of
                                   Inl e \<Rightarrow> (on_exception e, [])
                                 | Inr user_id \<Rightarrow>
                                     (let event_id = ''payment-'' @ py_str env payment_id @ ''-''
                                            @ py_str env payment_status @ ''-''
                                            @ take 8 (uuid4_hex env);
                                          event = JObj [(''id'', JStr event_id),
                                                        (''type'', JStr ''payment''),
                                                        (''timestamp'', timestamp), (''payload'', d)];
                                          sent = [(''payment-events'', event, py_str env user_id)]
                                      in case publish env of
                                           Inl e \<Rightarrow> (on_exception e, sent)
                                         | Inr (part, offset) \<Rightarrow>
                                             (\<lparr> status = 201,
                                                json_body = success_body part offset event \<rparr>,
                                              sent))))))))"

text \<open>
  The three event categories with their route, their required fields, the word that
  opens the event id and the field that holds the entity id.
\<close>

datatype category = Movie | User | Payment

fun create_event :: "category \<Rightarrow> 'f events_env \<Rightarrow> 'f outcome" where
  "create_event Movie = create_movie_event"
| "create_event User = create_user_event"
| "create_event Payment = create_payment_event"

fun required_fields :: "category \<Rightarrow> string list" where
  "required_fields Movie = movie_required_fields"
| "required_fields User = user_required_fields"
| "required_fields Payment = payment_required_fields"

fun category_name :: "category \<Rightarrow> string" where
  "category_name Movie = ''movie''"
| "category_name User = ''user''"
| "category_name Payment = ''payment''"

fun entity_field :: "category \<Rightarrow> string" where
  "entity_field Movie = ''movie_id''"
| "entity_field User = ''user_id''"
| "entity_field Payment = ''payment_id''"

text \<open>The id inside a success body, if the body has that shape.\<close>

fun event_id_of :: "'f json \<Rightarrow> string option" where
  "event_id_of (JObj kvs) =
     (case map_of kvs ''event'' of
        Some (JObj ev) \<Rightarrow> (case map_of ev ''id'' of Some (JStr i) \<Rightarrow> Some i | _ \<Rightarrow> None)
      | _ \<Rightarrow> None)"
| "event_id_of _ = None"

text \<open>
  A sample request environment: \<^verbatim>\<open>str\<close> on strings and integers, a fixed identifier
  and clock, a broker that accepts the record at partition 0, offset 41.
\<close>

fun sample_str :: "unit json \<Rightarrow> string" where
  "sample_str (JStr s) = s"
| "sample_str (JInt i) = str_int i"
| "sample_str _ = ''?''"

definition sample_events_env :: "(string \<times> unit json) list \<Rightarrow> unit events_env" where
  "sample_events_env kvs =
     \<lparr> get_json = Inr (JObj kvs), float_nonzero = (\<lambda>_. True), py_str = sample_str,
       uuid4_hex = ''9f1c2ab47d3e4c55a1b0c3d4e5f60718'',
       utcnow_isoformat = ''2024-01-01T00:00:00'', publish = Inr (0, 41) \<rparr>"

section \<open>Facts about the runtime functions\<close>

lemma startswith_append: "startswith s p \<longleftrightarrow> (\<exists>r. s = p @ r)"
proof
  assume "startswith s p"
  then have "s = p @ drop (length p) s"
    by (metis append_take_drop_id startswith_def)
  then show "\<exists>r. s = p @ r" ..
next
  assume "\<exists>r. s = p @ r"
  then show "startswith s p"
    by (auto simp: startswith_def)
qed

lemma percent_format_plain:
  "CHR ''%'' \<notin> set s \<Longrightarrow> percent_format Plain s = Inr s"
  by (induction s) auto

lemma digit_char_not_percent: "d < 10 \<Longrightarrow> digit_char d \<noteq> CHR ''%''"
proof -
  assume "d < 10"
  then have "d \<in> {0, 1, 2, 3, 4, 5, 6, 7, 8, 9}" by auto
  then show ?thesis by (auto simp: digit_char_def)
qed

lemma str_nat_no_percent: "CHR ''%'' \<notin> set (str_nat n)"
proof (induction n rule: str_nat.induct)
  case (1 n)
  show ?case
  proof (cases "n < 10")
    case True
    then show ?thesis
      using digit_char_not_percent [of n] by (subst str_nat.simps) auto
  next
    case False
    then show ?thesis
      using 1 digit_char_not_percent [of "n mod 10"] by (subst str_nat.simps) auto
  qed
qed

lemma str_int_no_percent: "CHR ''%'' \<notin> set (str_int i)"
  by (simp add: str_int_def str_nat_no_percent)

lemma log_message_plain:
  "CHR ''%'' \<notin> set s \<Longrightarrow> log_message s = Inr (''[Proxy] '' @ s)"
  by (simp add: log_message_def percent_format_plain)

lemma routing_line_logged:
  "log_message (pre @ str_int a @ mid @ str_int b @ '')'')
     = Inr (''[Proxy] '' @ pre @ str_int a @ mid @ str_int b @ '')'')"
  if "CHR ''%'' \<notin> set pre" and "CHR ''%'' \<notin> set mid"
  using that by (intro log_message_plain) (simp add: str_int_no_percent)

section \<open>The router\<close>

text \<open>
  C1. The health-check path of the movies service, \<^verbatim>\<open>/api/movies/health\<close>, is routed
  to the movies service whatever the gradual-migration flag, the percentage and the
  random draw are: the returned URL is the movies base URL followed by the path, and
  no draw is logged.
\<close>

theorem health_path_routes_to_movies:
  "determine_target cfg r ''/api/movies/health''
     = Inr ([], movies_service_url cfg @ ''/api/movies/health'')"
  by (simp add: determine_target_def)

theorem health_path_routes_to_movies_witness:
  "determine_target (default_config\<lparr>gradual_migration := True, movies_migration_percent := 0\<rparr>)
     57 ''/api/movies/health''
     = Inr ([], ''http://movies-service:8081/api/movies/health'')"
  using health_path_routes_to_movies
    [of "default_config\<lparr>gradual_migration := True, movies_migration_percent := 0\<rparr>" 57]
  by (simp add: default_config_def)

text \<open>
  C2. With gradual migration enabled, a path under \<^verbatim>\<open>/api/movies\<close> other than the
  health path, and a draw \<open>r\<close> between 0 and 99: at percentage 0 the target is the
  monolith, at percentage 100 it is the movies service. Each time the draw is logged.
\<close>

theorem split_extremes_deterministic:
  assumes "gradual_migration cfg"
    and "startswith p ''/api/movies''"
    and "p \<noteq> ''/api/movies/health''"
    and "0 \<le> r" and "r \<le> 99"
  shows "(movies_migration_percent cfg = 0 \<longrightarrow>
            determine_target cfg r p
              = Inr ([''[Proxy] Routing to monolith (random: '' @ str_int r @ '' >= ''
                        @ str_int 0 @ '')''],
                     monolith_url cfg @ p))
       \<and> (movies_migration_percent cfg = 100 \<longrightarrow>
            determine_target cfg r p
              = Inr ([''[Proxy] Routing to movies-service (random: '' @ str_int r @ '' < ''
                        @ str_int 100 @ '')''],
                     movies_service_url cfg @ p))"
proof (intro conjI impI)
  assume p: "movies_migration_percent cfg = 0"
  have "log_message (''Routing to monolith (random: '' @ str_int r @ '' >= '' @ str_int 0 @ '')'')
          = Inr (''[Proxy] '' @ ''Routing to monolith (random: '' @ str_int r @ '' >= ''
                   @ str_int 0 @ '')'')"
    by (rule routing_line_logged) simp_all
  with assms p show "determine_target cfg r p
      = Inr ([''[Proxy] Routing to monolith (random: '' @ str_int r @ '' >= ''
                @ str_int 0 @ '')''], monolith_url cfg @ p)"
    by (simp add: determine_target_def)
next
  assume p: "movies_migration_percent cfg = 100"
  have "log_message (''Routing to movies-service (random: '' @ str_int r @ '' < ''
                       @ str_int 100 @ '')'')
          = Inr (''[Proxy] '' @ ''Routing to movies-service (random: '' @ str_int r @ '' < ''
                   @ str_int 100 @ '')'')"
    by (rule routing_line_logged) simp_all
  with assms p show "determine_target cfg r p
      = Inr ([''[Proxy] Routing to movies-service (random: '' @ str_int r @ '' < ''
                @ str_int 100 @ '')''], movies_service_url cfg @ p)"
    by (simp add: determine_target_def)
qed

theorem split_extremes_deterministic_witness:
  "determine_target (default_config\<lparr>gradual_migration := True\<rparr>) 42 ''/api/movies/7''
     = Inr ([''[Proxy] Routing to monolith (random: 42 >= 0)''],
            ''http://monolith:8080/api/movies/7'')
   \<and> determine_target
       (default_config\<lparr>gradual_migration := True, movies_migration_percent := 100\<rparr>)
       99 ''/api/movies''
     = Inr ([''[Proxy] Routing to movies-service (random: 99 < 100)''],
            ''http://movies-service:8081/api/movies'')"
  using split_extremes_deterministic
      [of "default_config\<lparr>gradual_migration := True\<rparr>" "''/api/movies/7''" 42]
    split_extremes_deterministic
      [of "default_config\<lparr>gradual_migration := True, movies_migration_percent := 100\<rparr>"
          "''/api/movies''" 99]
  by (simp add: default_config_def startswith_def str_int_def str_nat.simps digit_char_def)

text \<open>
  C3. With gradual migration disabled, every path that starts with \<^verbatim>\<open>/api/movies\<close>
  and is not the health path goes to the monolith; neither the percentage nor the draw
  is consulted.
\<close>

theorem disabled_migration_routes_to_monolith:
  assumes "\<not> gradual_migration cfg"
    and "startswith p ''/api/movies''"
    and "p \<noteq> ''/api/movies/health''"
  shows "determine_target cfg r p = Inr ([], monolith_url cfg @ p)"
  using assms by (simp add: determine_target_def)

theorem disabled_migration_routes_to_monolith_witness:
  "determine_target (default_config\<lparr>movies_migration_percent := 100\<rparr>) 0 ''/api/movies/7''
     = Inr ([], ''http://monolith:8080/api/movies/7'')"
  using disabled_migration_routes_to_monolith
      [of "default_config\<lparr>movies_migration_percent := 100\<rparr>" "''/api/movies/7''" 0]
  by (simp add: default_config_def startswith_def)

text \<open>
  C4. A path that is not the health path and starts with neither \<^verbatim>\<open>/api/movies\<close> nor
  \<^verbatim>\<open>/api/events\<close> goes to the monolith, for every configuration and draw.
\<close>

theorem unmatched_path_routes_to_monolith:
  assumes "p \<noteq> ''/api/movies/health''"
    and "\<not> startswith p ''/api/movies''"
    and "\<not> startswith p ''/api/events''"
  shows "determine_target cfg r p = Inr ([], monolith_url cfg @ p)"
  using assms by (simp add: determine_target_def)

theorem unmatched_path_routes_to_monolith_witness:
  "determine_target (default_config\<lparr>gradual_migration := True, movies_migration_percent := 100\<rparr>)
     5 ''/api/users/3''
     = Inr ([], ''http://monolith:8080/api/users/3'')"
  using unmatched_path_routes_to_monolith
      [of "''/api/users/3''"
          "default_config\<lparr>gradual_migration := True, movies_migration_percent := 100\<rparr>" 5]
  by (simp add: default_config_def startswith_def)

text \<open>
  C5. Every path that starts with \<^verbatim>\<open>/api/events\<close> goes to the events service, with no
  split, whatever the flag, the percentage and the draw are. Such a path can neither
  be the movies health path nor start with \<^verbatim>\<open>/api/movies\<close>, so the prefix is the only
  hypothesis.
\<close>

theorem events_prefix_routes_to_events:
  assumes "startswith p ''/api/events''"
  shows "determine_target cfg r p = Inr ([], events_service_url cfg @ p)"
proof -
  from assms obtain rest where eq: "p = ''/api/events'' @ rest"
    by (auto simp: startswith_append)
  have "p \<noteq> ''/api/movies/health''"
    by (simp add: eq)
  moreover have "\<not> startswith p ''/api/movies''"
    by (simp add: eq startswith_def)
  ultimately show ?thesis
    using assms by (simp add: determine_target_def)
qed

theorem events_prefix_routes_to_events_witness:
  "determine_target (default_config\<lparr>gradual_migration := True, movies_migration_percent := 50\<rparr>)
     10 ''/api/events/movie''
     = Inr ([], ''http://events-service:8082/api/events/movie'')"
  using events_prefix_routes_to_events
      [of "''/api/events/movie''"
          "default_config\<lparr>gradual_migration := True, movies_migration_percent := 50\<rparr>" 10]
  by (simp add: default_config_def startswith_def)

section \<open>The request handler\<close>

lemma monolith_line:
  "log_message (''Routing to monolith (random: '' @ str_int r @ '' >= '' @ str_int q @ '')'')
     = Inr (''[Proxy] Routing to monolith (random: '' @ str_int r @ '' >= '' @ str_int q @ '')'')"
  using routing_line_logged [of "''Routing to monolith (random: ''" "'' >= ''" r q] by simp

lemma movies_line:
  "log_message (''Routing to movies-service (random: '' @ str_int r @ '' < '' @ str_int q @ '')'')
     = Inr (''[Proxy] Routing to movies-service (random: '' @ str_int r @ '' < '' @ str_int q
              @ '')'')"
  using routing_line_logged [of "''Routing to movies-service (random: ''" "'' < ''" r q] by simp

lemma determine_target_returns:
  "\<exists>printed authority.
     determine_target cfg r p = Inr (printed, authority @ p)
   \<and> authority \<in> set [monolith_url cfg, movies_service_url cfg, events_service_url cfg]"
  using monolith_line [of r "movies_migration_percent cfg"]
    movies_line [of r "movies_migration_percent cfg"]
  by (simp add: determine_target_def)

text \<open>
  C9. The handler takes \<^verbatim>\<open>self.path\<close> from the request line, which the base class
  splits at white space, so the path is never empty. For every such path, every
  configuration and every draw, routing raises nothing and returns one destination: one
  of the three configured authorities followed by the path. The returned string is not
  empty, so \<^verbatim>\<open>if not target_url\<close> fails and the \<^verbatim>\<open>404\<close> branch is not taken: apart from
  the local \<^verbatim>\<open>/health\<close> answer, the run of the handler is the run of \<^verbatim>\<open>_proxy_request\<close>
  on that destination, after the lines the router printed.
\<close>

theorem routing_total_not_found_unreachable:
  assumes "path req \<noteq> []"
  shows "\<exists>printed authority.
           determine_target cfg r (path req) = Inr (printed, authority @ path req)
         \<and> authority \<in> set [monolith_url cfg, movies_service_url cfg, events_service_url cfg]
         \<and> authority @ path req \<noteq> []
         \<and> handle_request cfg r env req =
             (if path req = ''/health'' then
                ([Sent (send_response 200 (Text ''Strangler Fig Proxy is healthy'') None
                          (Some ''text/plain''))], None)
              else (map Printed printed @ fst (proxy_request env req (authority @ path req)),
                    snd (proxy_request env req (authority @ path req))))"
proof -
  obtain printed authority where
    d: "determine_target cfg r (path req) = Inr (printed, authority @ path req)"
    and m: "authority \<in> set [monolith_url cfg, movies_service_url cfg, events_service_url cfg]"
    using determine_target_returns by blast
  from assms have n: "authority @ path req \<noteq> []"
    by simp
  have "handle_request cfg r env req =
             (if path req = ''/health'' then
                ([Sent (send_response 200 (Text ''Strangler Fig Proxy is healthy'') None
                          (Some ''text/plain''))], None)
              else (map Printed printed @ fst (proxy_request env req (authority @ path req)),
                    snd (proxy_request env req (authority @ path req))))"
    using d assms by (simp add: handle_request_def split: prod.split)
  with d m n show ?thesis by blast
qed

theorem routing_total_not_found_unreachable_witness:
  "path \<lparr>command = ''GET'', path = ''/api/users/7'', headers = []\<rparr> \<noteq> []
   \<and> determine_target default_config 0 ''/api/users/7''
       = Inr ([], ''http://monolith:8080/api/users/7'')
   \<and> handle_request default_config 0 reachable_backend
        \<lparr>command = ''GET'', path = ''/api/users/7'', headers = []\<rparr>
       = proxy_request reachable_backend
           \<lparr>command = ''GET'', path = ''/api/users/7'', headers = []\<rparr>
           ''http://monolith:8080/api/users/7''"
proof -
  have d: "determine_target default_config 0 ''/api/users/7''
             = Inr ([], ''http://monolith:8080/api/users/7'')"
    by (simp add: determine_target_def startswith_def default_config_def)
  show ?thesis
    using routing_total_not_found_unreachable
      [of "\<lparr>command = ''GET'', path = ''/api/users/7'', headers = []\<rparr>" default_config 0
          reachable_backend]
    by (auto simp: d)
qed

lemma relay_requested:
  "Requested ob \<in> set (fst (relay env q t)) \<Longrightarrow> url ob = t"
  by (auto simp: relay_def outbound_def split: sum.splits)

lemma proxy_requested:
  assumes "Requested ob \<in> set (fst (proxy_request env q t))"
  shows "url ob = t"
proof -
  obtain effects raised where r: "relay env q t = (effects, raised)"
    by (cases "relay env q t")
  from assms r have "Requested ob \<in> set effects"
    by (auto simp: proxy_request_def split: option.splits py_exception.splits sum.splits)
  with r relay_requested [of ob env q t] show ?thesis by simp
qed

lemma proxy_requested_pair:
  "proxy_request env q t = (effects, raised) \<Longrightarrow> Requested ob \<in> set effects \<Longrightarrow> url ob = t"
  using proxy_requested [of ob env q t] by simp

lemma handle_requested:
  assumes "Requested ob \<in> set (fst (handle_request cfg r env q))"
  shows "\<exists>printed. determine_target cfg r (path q) = Inr (printed, url ob)"
  using assms
  by (auto simp: handle_request_def send_error_response_def
           split: if_splits sum.splits prod.splits dest: proxy_requested_pair)

text \<open>
  C10. Two requests with the same path, each with one of the commands GET, POST, PUT
  and DELETE (the commands for which \<open>dispatch\<close> runs the handler), under the same
  configuration and draw: every call that the first makes to a backend goes to the
  same URL as every call that the second makes, whatever the commands, the headers
  and the backends' behaviour are.
\<close>

theorem destination_independent_of_method:
  assumes "dispatch cfg r env1 q1 = Some run1" and "dispatch cfg r env2 q2 = Some run2"
    and "path q1 = path q2"
    and "Requested ob1 \<in> set (fst run1)" and "Requested ob2 \<in> set (fst run2)"
  shows "url ob1 = url ob2"
proof -
  have 1: "run1 = handle_request cfg r env1 q1"
    using assms(1) by (auto simp: dispatch_def do_GET_def do_POST_def do_PUT_def do_DELETE_def split: if_splits)
  have 2: "run2 = handle_request cfg r env2 q2"
    using assms(2) by (auto simp: dispatch_def do_GET_def do_POST_def do_PUT_def do_DELETE_def split: if_splits)
  from handle_requested [of ob1 cfg r env1 q1] assms(4) 1
  obtain pr1 where "determine_target cfg r (path q1) = Inr (pr1, url ob1)" by auto
  moreover from handle_requested [of ob2 cfg r env2 q2] assms(5) 2
  obtain pr2 where "determine_target cfg r (path q2) = Inr (pr2, url ob2)" by auto
  ultimately show ?thesis using assms(3) by simp
qed

theorem destination_independent_of_method_witness:
  "dispatch default_config 0 reachable_backend
      \<lparr>command = ''GET'', path = ''/api/movies/7'', headers = []\<rparr>
     = Some ([Requested \<lparr>out_method = ''GET'', url = ''http://monolith:8080/api/movies/7'',
                          out_headers = [], data = None, timeout = 30\<rparr>,
              Sent (send_response 200 (Bytes ''ok'') (Some (resp_headers sample_response)) None)],
             None)
   \<and> dispatch default_config 0 unreachable_backend
      \<lparr>command = ''DELETE'', path = ''/api/movies/7'', headers = [(''Accept'', ''*/*'')]\<rparr>
     = Some ([Requested \<lparr>out_method = ''DELETE'', url = ''http://monolith:8080/api/movies/7'',
                          out_headers = [(''Accept'', ''*/*'')], data = None, timeout = 30\<rparr>,
              Printed ''[Proxy] Error proxying request to http://monolith:8080/api/movies/7: Connection refused'',
              Sent (send_error_response 502 ''Bad Gateway: Connection refused'')],
             None)
   \<and> url \<lparr>out_method = ''GET'', url = ''http://monolith:8080/api/movies/7'',
            out_headers = [], data = None, timeout = 30\<rparr>
     = url \<lparr>out_method = ''DELETE'', url = ''http://monolith:8080/api/movies/7'',
            out_headers = [(''Accept'', ''*/*'')], data = None, timeout = 30\<rparr>"
proof -
  have 1: "dispatch default_config 0 reachable_backend
      \<lparr>command = ''GET'', path = ''/api/movies/7'', headers = []\<rparr>
     = Some ([Requested \<lparr>out_method = ''GET'', url = ''http://monolith:8080/api/movies/7'',
                          out_headers = [], data = None, timeout = 30\<rparr>,
              Sent (send_response 200 (Bytes ''ok'') (Some (resp_headers sample_response)) None)],
             None)"
    by code_simp
  have 2: "dispatch default_config 0 unreachable_backend
      \<lparr>command = ''DELETE'', path = ''/api/movies/7'', headers = [(''Accept'', ''*/*'')]\<rparr>
     = Some ([Requested \<lparr>out_method = ''DELETE'', url = ''http://monolith:8080/api/movies/7'',
                          out_headers = [(''Accept'', ''*/*'')], data = None, timeout = 30\<rparr>,
              Printed ''[Proxy] Error proxying request to http://monolith:8080/api/movies/7: Connection refused'',
              Sent (send_error_response 502 ''Bad Gateway: Connection refused'')],
             None)"
    by code_simp
  have 3: "url \<lparr>out_method = ''GET'', url = ''http://monolith:8080/api/movies/7'',
            out_headers = [], data = None, timeout = 30\<rparr>
     = url \<lparr>out_method = ''DELETE'', url = ''http://monolith:8080/api/movies/7'',
            out_headers = [(''Accept'', ''*/*'')], data = None, timeout = 30\<rparr>"
    by (rule destination_independent_of_method [OF 1 2]) simp_all
  from 1 2 3 show ?thesis by blast
qed

section \<open>Relaying headers\<close>

lemma lower_names:
  "lower ''Content-Type'' = ''content-type''"
  "lower ''Content-Length'' = ''content-length''"
  by code_simp+

lemma fold_update_lookup:
  "map_of (fold (\<lambda>(k, v) d. if P k then AList.update k v d else d) hs acc) h
     = (if P h then (case map_of (rev hs) h of Some v \<Rightarrow> Some v | None \<Rightarrow> map_of acc h)
        else map_of acc h)"
proof (induction hs arbitrary: acc)
  case Nil
  show ?case by simp
next
  case (Cons x hs)
  obtain k v where x: "x = (k, v)" by (cases x)
  show ?case
    unfolding x by (simp add: Cons.IH update_conv' map_add_def split: option.splits)
qed

lemma forward_headers_lookup:
  "map_of (forward_headers hs) h
     = (if lower h \<in> set [''host'', ''connection'', ''content-length''] then None
        else map_of (rev hs) h)"
  using fold_update_lookup
    [of "\<lambda>k. lower k \<notin> set [''host'', ''connection'', ''content-length'']" hs "[]" h]
  by (simp add: forward_headers_def split: option.splits)

lemma relayed_content_length:
  "[v. (h, v) \<leftarrow> header_lines (send_response st (Bytes b) (Some rh) None),
       lower h = ''content-length''] = [str_int (int (length b))]"
proof -
  have "[v. (h, v) \<leftarrow> relayed_lines (Some rh), lower h = ''content-length''] = []"
    by (induction rh) (auto simp: relayed_lines_def)
  then show ?thesis
    by (simp add: send_response_def encoded_def lower_names)
qed

text \<open>
  C6, as amended. When the body is read and the backend answers, the handler makes one
  call and sends one response. The outbound headers hold no name that is \<^verbatim>\<open>host\<close>,
  \<^verbatim>\<open>connection\<close> or \<^verbatim>\<open>content-length\<close> in lower case; every other name of the request,
  \<^verbatim>\<open>Transfer-Encoding\<close> included, is there with the value of its last line. The response
  carries the backend's status and body; its header lines are a \<^verbatim>\<open>Content-Type\<close> line
  (the backend's value when the backend has the key \<^verbatim>\<open>Content-Type\<close>), then the
  backend's headers in their order without those named \<^verbatim>\<open>content-type\<close>,
  \<^verbatim>\<open>content-length\<close> or \<^verbatim>\<open>transfer-encoding\<close> in lower case (\<^verbatim>\<open>Host\<close> and \<^verbatim>\<open>Connection\<close>
  stay), then one \<^verbatim>\<open>Content-Length\<close> line, the only one, with the byte length of the
  relayed body.
\<close>

theorem relay_header_policy:
  assumes "read_body env req = Inr b"
    and "requests_request env (outbound req target b) = Inr resp"
  shows "\<exists>ob cr ct.
           proxy_request env req target = ([Requested ob, Sent cr], None)
         \<and> url ob = target \<and> out_method ob = command req \<and> data ob = b
         \<and> (\<forall>h. map_of (out_headers ob) h
                  = (if lower h \<in> set [''host'', ''connection'', ''content-length''] then None
                     else map_of (rev (headers req)) h))
         \<and> code cr = status_code resp \<and> body cr = content resp
         \<and> header_lines cr
             = (''Content-Type'', ct)
                 # filter (\<lambda>(h, v). lower h \<notin> set [''content-type'', ''content-length'',
                                                      ''transfer-encoding''])
                     (resp_headers resp)
                 @ [(''Content-Length'', str_int (int (length (content resp))))]
         \<and> (\<forall>v. map_of (resp_headers resp) ''Content-Type'' = Some v \<longrightarrow> ct = v)
         \<and> [v. (h, v) \<leftarrow> header_lines cr, lower h = ''content-length'']
             = [str_int (int (length (body cr)))]"
proof -
  let ?ob = "outbound req target b"
  let ?cr = "send_response (status_code resp) (Bytes (content resp)) (Some (resp_headers resp)) None"
  let ?ct = "content_type_line (Bytes (content resp)) (Some (resp_headers resp)) None"
  have run: "proxy_request env req target = ([Requested ?ob, Sent ?cr], None)"
    using assms by (simp add: proxy_request_def relay_def)
  have hdr: "\<forall>h. map_of (out_headers ?ob) h
                  = (if lower h \<in> set [''host'', ''connection'', ''content-length''] then None
                     else map_of (rev (headers req)) h)"
    by (simp add: outbound_def forward_headers_lookup)
  have lines: "header_lines ?cr
             = (''Content-Type'', ?ct)
                 # filter (\<lambda>(h, v). lower h \<notin> set [''content-type'', ''content-length'',
                                                      ''transfer-encoding''])
                     (resp_headers resp)
                 @ [(''Content-Length'', str_int (int (length (content resp))))]"
    by (simp add: send_response_def relayed_lines_def encoded_def)
  have ct: "\<forall>v. map_of (resp_headers resp) ''Content-Type'' = Some v \<longrightarrow> ?ct = v"
    by (auto simp: content_type_line_def split: list.splits)
  have cl: "[v. (h, v) \<leftarrow> header_lines ?cr, lower h = ''content-length'']
             = [str_int (int (length (body ?cr)))]"
    using relayed_content_length [of "status_code resp" "content resp" "resp_headers resp"]
    by (simp add: send_response_def encoded_def)
  have rest: "url ?ob = target \<and> out_method ?ob = command req \<and> data ?ob = b
      \<and> code ?cr = status_code resp \<and> body ?cr = content resp"
    by (simp add: outbound_def send_response_def encoded_def)
  from run hdr lines ct cl rest show ?thesis by blast
qed

theorem relay_header_policy_witness:
  "read_body reachable_backend
      \<lparr>command = ''POST'', path = ''/api/users'',
       headers = [(''Host'', ''proxy:8000''), (''Content-Length'', ''2''), (''X-Tag'', ''a''),
                  (''X-Tag'', ''b'')]\<rparr> = Inr (Some ''{}'')
   \<and> (\<exists>ob cr. proxy_request reachable_backend
          \<lparr>command = ''POST'', path = ''/api/users'',
           headers = [(''Host'', ''proxy:8000''), (''Content-Length'', ''2''), (''X-Tag'', ''a''),
                      (''X-Tag'', ''b'')]\<rparr> ''http://monolith:8080/api/users''
          = ([Requested ob, Sent cr], None)
        \<and> map_of (out_headers ob) ''X-Tag'' = Some ''b''
        \<and> map_of (out_headers ob) ''Host'' = None
        \<and> body cr = ''ok''
        \<and> [v. (h, v) \<leftarrow> header_lines cr, lower h = ''content-length''] = [''2''])"
proof -
  let ?req = "\<lparr>command = ''POST'', path = ''/api/users'',
       headers = [(''Host'', ''proxy:8000''), (''Content-Length'', ''2''), (''X-Tag'', ''a''),
                  (''X-Tag'', ''b'')]\<rparr>"
  have b: "read_body reachable_backend ?req = Inr (Some ''{}'')"
    by code_simp
  have r: "requests_request reachable_backend
             (outbound ?req ''http://monolith:8080/api/users'' (Some ''{}'')) = Inr sample_response"
    by (simp add: reachable_backend_def)
  have l: "lower ''X-Tag'' = ''x-tag''" "lower ''Host'' = ''host''"
    by code_simp+
  have n: "str_int (int (length (body cr))) = ''2''" if "body cr = content sample_response" for cr
    using that by (simp add: sample_response_def str_int_def str_nat.simps digit_char_def)
  from relay_header_policy [OF b r] obtain ob cr ct where
    "proxy_request reachable_backend ?req ''http://monolith:8080/api/users''
       = ([Requested ob, Sent cr], None)"
    and "\<forall>h. map_of (out_headers ob) h
                  = (if lower h \<in> set [''host'', ''connection'', ''content-length''] then None
                     else map_of (rev (headers ?req)) h)"
    and "body cr = content sample_response"
    and "[v. (h, v) \<leftarrow> header_lines cr, lower h = ''content-length'']
             = [str_int (int (length (body cr)))]"
    by blast
  then have "proxy_request reachable_backend ?req ''http://monolith:8080/api/users''
          = ([Requested ob, Sent cr], None)
        \<and> map_of (out_headers ob) ''X-Tag'' = Some ''b''
        \<and> map_of (out_headers ob) ''Host'' = None
        \<and> body cr = ''ok''
        \<and> [v. (h, v) \<leftarrow> header_lines cr, lower h = ''content-length''] = [''2'']"
    using n [of cr] by (simp add: l sample_response_def)
  with b show ?thesis by blast
qed

text \<open>
  C6 as stated fails: the \<^verbatim>\<open>Transfer-Encoding\<close> line of a request is copied to the
  outbound call, the \<^verbatim>\<open>Connection\<close> header of a backend is copied to the relayed
  response, and a backend's \<^verbatim>\<open>content-type\<close> in lower case is replaced.
\<close>

theorem hop_by_hop_counterexample:
  "proxy_request reachable_backend
     \<lparr>command = ''POST'', path = ''/api/users'',
      headers = [(''Host'', ''proxy:8000''), (''Transfer-Encoding'', ''chunked'')]\<rparr>
     ''http://monolith:8080/api/users''
   = ([Requested \<lparr>out_method = ''POST'', url = ''http://monolith:8080/api/users'',
                   out_headers = [(''Transfer-Encoding'', ''chunked'')], data = None,
                   timeout = 30\<rparr>,
       Sent \<lparr>code = 200,
              header_lines = [(''Content-Type'', ''application/json''), (''Connection'', ''close''),
                              (''X-Served-By'', ''movies''), (''Content-Length'', ''2'')],
              body = ''ok''\<rparr>],
      None)"
  by code_simp

section \<open>Errors while relaying\<close>

text \<open>
  What the two \<^verbatim>\<open>except\<close> clauses do when the text they log has no \<^verbatim>\<open>%\<close>: one line
  is printed and one error response follows, 502 with the reason for a
  \<^verbatim>\<open>RequestException\<close>, 500 with a fixed message otherwise, and nothing is raised.
\<close>

lemma error_mapping_when_loggable:
  assumes "relay env req target = (effects, Some e)"
    and "CHR ''%'' \<notin> set target" and "CHR ''%'' \<notin> set (str_of_exception e)"
  shows "proxy_request env req target =
           (case e of
              RequestException m \<Rightarrow>
                (effects @ [Printed (''[Proxy] Error proxying request to '' @ target @ '': '' @ m),
                            Sent (send_error_response 502 (''Bad Gateway: '' @ m))], None)
            | _ \<Rightarrow>
                (effects @ [Printed (''[Proxy] Unexpected error: '' @ str_of_exception e),
                            Sent (send_error_response 500 ''Internal Server Error'')], None))"
proof (cases e)
  case (RequestException m)
  with assms have "CHR ''%'' \<notin> set (''Error proxying request to '' @ target @ '': '' @ m)"
    by simp
  from log_message_plain [OF this] assms(1) RequestException show ?thesis
    by (simp add: proxy_request_def)
next
  case (KafkaError m)
  with assms have "CHR ''%'' \<notin> set (''Unexpected error: '' @ m)"
    by simp
  from log_message_plain [OF this] assms(1) KafkaError show ?thesis
    by (simp add: proxy_request_def)
next
  case (Exception m)
  with assms have "CHR ''%'' \<notin> set (''Unexpected error: '' @ m)"
    by simp
  from log_message_plain [OF this] assms(1) Exception show ?thesis
    by (simp add: proxy_request_def)
qed

text \<open>
  C7. The claim asks for a 502 response whenever the backend cannot be reached. For
  \<^verbatim>\<open>GET /api/users?name=a%20b\<close> with a backend that refuses the connection the
  handler sends nothing: \<^verbatim>\<open>log_message\<close> applies \<^verbatim>\<open>%\<close> to a text that holds the URL,
  \<^verbatim>\<open>%20b\<close> asks for an argument, and the \<^verbatim>\<open>TypeError\<close> raised inside the \<^verbatim>\<open>except\<close>
  clause leaves the handler.
\<close>

theorem percent_in_url_loses_the_error_response:
  "handle_request default_config 0 unreachable_backend
     \<lparr>command = ''GET'', path = ''/api/users?name=a%20b'', headers = [(''Host'', ''proxy:8000'')]\<rparr>
   = ([Requested \<lparr>out_method = ''GET'', url = ''http://monolith:8080/api/users?name=a%20b'',
                   out_headers = [], data = None, timeout = 30\<rparr>],
      Some (Exception ''not enough arguments for format string''))"
  by code_simp

section \<open>Creating events\<close>

lemma first_missing_obj:
  "first_missing fs (JObj kvs) = Inr (find (\<lambda>g. map_of kvs g = None) fs)"
  by (induction fs) auto

lemma find_only:
  assumes "f \<in> set fs" and "P f" and "\<forall>g \<in> set fs. g \<noteq> f \<longrightarrow> \<not> P g"
  shows "find P fs = Some f"
  using assms by (induction fs) auto

lemma first_missing_none:
  assumes "\<forall>f \<in> set fs. f \<in> fst ` set kvs"
  shows "first_missing fs (JObj kvs) = Inr None"
  using assms by (simp add: first_missing_obj find_None_iff map_of_eq_None_iff)

lemma first_missing_only:
  assumes "f \<in> set fs" and "f \<notin> fst ` set kvs"
    and "\<forall>g \<in> set fs. g \<noteq> f \<longrightarrow> g \<in> fst ` set kvs"
  shows "first_missing fs (JObj kvs) = Inr (Some f)"
  unfolding first_missing_obj
  by (rule arg_cong [where f = Inr], rule find_only) (use assms in \<open>auto simp: map_of_eq_None_iff\<close>)

lemma key_value: "k \<in> fst ` set kvs \<Longrightarrow> \<exists>v. map_of kvs k = Some v"
  by (metis map_of_eq_None_iff not_None_eq)

lemma startswith_prefix: "startswith (p @ r) p"
  by (simp add: startswith_def)

lemma movie_created:
  assumes "get_json env = Inr (JObj kvs)"
    and "\<forall>f \<in> set movie_required_fields. f \<in> fst ` set kvs"
    and "publish env = Inr (part, offset)"
  shows "\<exists>event_id v. map_of kvs ''movie_id'' = Some v
         \<and> startswith event_id (''movie'' @ ''-'' @ py_str env v @ ''-'')
         \<and> status (fst (create_movie_event env)) = 201
         \<and> event_id_of (json_body (fst (create_movie_event env))) = Some event_id
         \<and> length (snd (create_movie_event env)) = 1"
proof -
  from assms(2) obtain v a where v: "map_of kvs ''movie_id'' = Some v"
    and a: "map_of kvs ''action'' = Some a"
    using key_value [of "''movie_id''" kvs] key_value [of "''action''" kvs]
    by (auto simp: movie_required_fields_def)
  from v have ne: "kvs \<noteq> []" by auto
  let ?id = "''movie-'' @ py_str env v @ ''-'' @ py_str env a @ ''-'' @ take 8 (uuid4_hex env)"
  have "status (fst (create_movie_event env)) = 201
      \<and> event_id_of (json_body (fst (create_movie_event env))) = Some ?id
      \<and> length (snd (create_movie_event env)) = 1"
    using assms(1,3) first_missing_none [OF assms(2)] v a ne
    by (simp add: create_movie_event_def success_body_def Let_def)
  moreover have "startswith ?id (''movie'' @ ''-'' @ py_str env v @ ''-'')"
    using startswith_prefix [of "''movie'' @ ''-'' @ py_str env v @ ''-''"
        "py_str env a @ ''-'' @ take 8 (uuid4_hex env)"] by simp
  ultimately show ?thesis using v by blast
qed

lemma user_created:
  assumes "get_json env = Inr (JObj kvs)"
    and "\<forall>f \<in> set user_required_fields. f \<in> fst ` set kvs"
    and "publish env = Inr (part, offset)"
  shows "\<exists>event_id v. map_of kvs ''user_id'' = Some v
         \<and> startswith event_id (''user'' @ ''-'' @ py_str env v @ ''-'')
         \<and> status (fst (create_user_event env)) = 201
         \<and> event_id_of (json_body (fst (create_user_event env))) = Some event_id
         \<and> length (snd (create_user_event env)) = 1"
proof -
  from assms(2) obtain v a t where v: "map_of kvs ''user_id'' = Some v"
    and a: "map_of kvs ''action'' = Some a" and t: "map_of kvs ''timestamp'' = Some t"
    using key_value [of "''user_id''" kvs] key_value [of "''action''" kvs]
      key_value [of "''timestamp''" kvs]
    by (auto simp: user_required_fields_def)
  from v have ne: "kvs \<noteq> []" by auto
  let ?id = "''user-'' @ py_str env v @ ''-'' @ py_str env a @ ''-'' @ take 8 (uuid4_hex env)"
  have "status (fst (create_user_event env)) = 201
      \<and> event_id_of (json_body (fst (create_user_event env))) = Some ?id
      \<and> length (snd (create_user_event env)) = 1"
    using assms(1,3) first_missing_none [OF assms(2)] v a t ne
    by (simp add: create_user_event_def success_body_def Let_def)
  moreover have "startswith ?id (''user'' @ ''-'' @ py_str env v @ ''-'')"
    using startswith_prefix [of "''user'' @ ''-'' @ py_str env v @ ''-''"
        "py_str env a @ ''-'' @ take 8 (uuid4_hex env)"] by simp
  ultimately show ?thesis using v by blast
qed

lemma payment_created:
  assumes "get_json env = Inr (JObj kvs)"
    and "\<forall>f \<in> set payment_required_fields. f \<in> fst ` set kvs"
    and "publish env = Inr (part, offset)"
  shows "\<exists>event_id v. map_of kvs ''payment_id'' = Some v
         \<and> startswith event_id (''payment'' @ ''-'' @ py_str env v @ ''-'')
         \<and> status (fst (create_payment_event env)) = 201
         \<and> event_id_of (json_body (fst (create_payment_event env))) = Some event_id
         \<and> length (snd (create_payment_event env)) = 1"
proof -
  from assms(2) obtain v a t u where v: "map_of kvs ''payment_id'' = Some v"
    and a: "map_of kvs ''status'' = Some a" and t: "map_of kvs ''timestamp'' = Some t"
    and u: "map_of kvs ''user_id'' = Some u"
    using key_value [of "''payment_id''" kvs] key_value [of "''status''" kvs]
      key_value [of "''timestamp''" kvs] key_value [of "''user_id''" kvs]
    by (auto simp: payment_required_fields_def)
  from v have ne: "kvs \<noteq> []" by auto
  let ?id = "''payment-'' @ py_str env v @ ''-'' @ py_str env a @ ''-'' @ take 8 (uuid4_hex env)"
  have "status (fst (create_payment_event env)) = 201
      \<and> event_id_of (json_body (fst (create_payment_event env))) = Some ?id
      \<and> length (snd (create_payment_event env)) = 1"
    using assms(1,3) first_missing_none [OF assms(2)] v a t u ne
    by (simp add: create_payment_event_def success_body_def Let_def)
  moreover have "startswith ?id (''payment'' @ ''-'' @ py_str env v @ ''-'')"
    using startswith_prefix [of "''payment'' @ ''-'' @ py_str env v @ ''-''"
        "py_str env a @ ''-'' @ take 8 (uuid4_hex env)"] by simp
  ultimately show ?thesis using v by blast
qed

lemma some_field_present:
  assumes "f \<in> set (required_fields cat)"
    and "\<forall>g \<in> set (required_fields cat). g \<noteq> f \<longrightarrow> g \<in> fst ` set kvs"
  shows "kvs \<noteq> []"
proof -
  have "\<exists>g \<in> set (required_fields cat). g \<noteq> f"
    by (cases cat)
       (auto simp: movie_required_fields_def user_required_fields_def payment_required_fields_def)
  with assms(2) show ?thesis by auto
qed

lemma missing_field_rejected:
  assumes "get_json env = Inr (JObj kvs)"
    and "f \<in> set (required_fields cat)" and "f \<notin> fst ` set kvs"
    and "\<forall>g \<in> set (required_fields cat). g \<noteq> f \<longrightarrow> g \<in> fst ` set kvs"
  shows "create_event cat env
           = (\<lparr> status = 400, json_body = error_body (''Missing required field: '' @ f) \<rparr>, [])"
proof -
  have ne: "kvs \<noteq> []" using some_field_present [OF assms(2,4)] .
  have m: "first_missing (required_fields cat) (JObj kvs) = Inr (Some f)"
    using first_missing_only [OF assms(2,3,4)] .
  show ?thesis
    using assms(1) ne m
    by (cases cat) (simp_all add: create_movie_event_def create_user_event_def
          create_payment_event_def)
qed

text \<open>
  C8. A request to one of the three routes whose JSON body is an object. If every
  required field of the category is a key of the object and publishing succeeds, the
  status is 201, one record is sent, and the event id in the body starts with the
  category, a hyphen, the entity id as \<^verbatim>\<open>str\<close> prints it, and a hyphen. If exactly one
  required field is not a key, the status is 400, the body is the object
  \<^verbatim>\<open>{"error": "Missing required field: <field>"}\<close> with that field, written out in the
  statement, and nothing is sent.
\<close>

theorem event_creation_contract:
  assumes "get_json env = Inr (JObj kvs)"
  shows "((\<forall>f \<in> set (required_fields cat). f \<in> fst ` set kvs)
            \<and> publish env = Inr (part, offset)
          \<longrightarrow> (\<exists>event_id v.
                 map_of kvs (entity_field cat) = Some v
               \<and> startswith event_id (category_name cat @ ''-'' @ py_str env v @ ''-'')
               \<and> status (fst (create_event cat env)) = 201
               \<and> event_id_of (json_body (fst (create_event cat env))) = Some event_id
               \<and> length (snd (create_event cat env)) = 1))
       \<and> (f \<in> set (required_fields cat) \<and> f \<notin> fst ` set kvs
            \<and> (\<forall>g \<in> set (required_fields cat). g \<noteq> f \<longrightarrow> g \<in> fst ` set kvs)
          \<longrightarrow> create_event cat env
                = (\<lparr> status = 400,
                     json_body = JObj [(''error'', JStr (''Missing required field: '' @ f))] \<rparr>,
                   []))"
proof (intro conjI impI)
  assume a: "(\<forall>f \<in> set (required_fields cat). f \<in> fst ` set kvs)
            \<and> publish env = Inr (part, offset)"
  show "\<exists>event_id v.
                 map_of kvs (entity_field cat) = Some v
               \<and> startswith event_id (category_name cat @ ''-'' @ py_str env v @ ''-'')
               \<and> status (fst (create_event cat env)) = 201
               \<and> event_id_of (json_body (fst (create_event cat env))) = Some event_id
               \<and> length (snd (create_event cat env)) = 1"
  proof (cases cat)
    case Movie
    with a movie_created [OF assms, of part offset] show ?thesis by simp
  next
    case User
    with a user_created [OF assms, of part offset] show ?thesis by simp
  next
    case Payment
    with a payment_created [OF assms, of part offset] show ?thesis by simp
  qed
next
  assume "f \<in> set (required_fields cat) \<and> f \<notin> fst ` set kvs
            \<and> (\<forall>g \<in> set (required_fields cat). g \<noteq> f \<longrightarrow> g \<in> fst ` set kvs)"
  then have "create_event cat env
                = (\<lparr> status = 400,
                     json_body = error_body (''Missing required field: '' @ f) \<rparr>, [])"
    using missing_field_rejected [OF assms] by blast
  then show "create_event cat env
                = (\<lparr> status = 400,
                     json_body = JObj [(''error'', JStr (''Missing required field: '' @ f))] \<rparr>,
                   [])"
    by (simp add: error_body_def)
qed

theorem event_creation_contract_witness:
  "status (fst (create_event Movie (sample_events_env
      [(''movie_id'', JInt 7), (''title'', JStr ''Alien''), (''action'', JStr ''created'')]))) = 201
   \<and> event_id_of (json_body (fst (create_event Movie (sample_events_env
      [(''movie_id'', JInt 7), (''title'', JStr ''Alien''), (''action'', JStr ''created'')]))))
       = Some ''movie-7-created-9f1c2ab4''
   \<and> startswith ''movie-7-created-9f1c2ab4'' ''movie-7-''
   \<and> create_event Payment (sample_events_env
        [(''payment_id'', JInt 3), (''user_id'', JInt 12), (''status'', JStr ''paid''),
         (''timestamp'', JStr ''2024-01-01T00:00:00Z'')])
       = (\<lparr> status = 400,
            json_body = JObj [(''error'', JStr ''Missing required field: amount'')] \<rparr>, [])"
proof -
  let ?a = "[(''movie_id'', JInt 7), (''title'', JStr ''Alien''), (''action'', JStr ''created'')]
              :: (string \<times> unit json) list"
  let ?b = "[(''payment_id'', JInt 3), (''user_id'', JInt 12), (''status'', JStr ''paid''),
             (''timestamp'', JStr ''2024-01-01T00:00:00Z'')] :: (string \<times> unit json) list"
  have ga: "get_json (sample_events_env ?a) = Inr (JObj ?a)"
    and gb: "get_json (sample_events_env ?b) = Inr (JObj ?b)"
    and pa: "publish (sample_events_env ?a) = Inr (0, 41)"
    by (simp_all add: sample_events_env_def)
  have all: "\<forall>f \<in> set (required_fields Movie). f \<in> fst ` set ?a"
    by (simp add: movie_required_fields_def)
  have "\<exists>event_id v. map_of ?a (entity_field Movie) = Some v
      \<and> startswith event_id (category_name Movie @ ''-'' @ py_str (sample_events_env ?a) v @ ''-'')
      \<and> status (fst (create_event Movie (sample_events_env ?a))) = 201
      \<and> event_id_of (json_body (fst (create_event Movie (sample_events_env ?a)))) = Some event_id
      \<and> length (snd (create_event Movie (sample_events_env ?a))) = 1"
    by (rule mp [OF conjunct1 [OF event_creation_contract [OF ga, of Movie 0 41]]])
       (rule conjI [OF all pa])
  then obtain event_id v where v: "map_of ?a (entity_field Movie) = Some v"
    and p: "startswith event_id (category_name Movie @ ''-'' @ py_str (sample_events_env ?a) v @ ''-'')"
    and s: "status (fst (create_event Movie (sample_events_env ?a))) = 201"
    and i: "event_id_of (json_body (fst (create_event Movie (sample_events_env ?a)))) = Some event_id"
    by (elim exE conjE)
  have e: "event_id_of (json_body (fst (create_event Movie (sample_events_env ?a))))
             = Some ''movie-7-created-9f1c2ab4''"
    by (simp add: create_movie_event_def sample_events_env_def movie_required_fields_def
        success_body_def Let_def str_int_def str_nat.simps digit_char_def)
  from v have v7: "v = JInt 7" by simp
  from i e have id: "event_id = ''movie-7-created-9f1c2ab4''" by simp
  have p': "startswith ''movie-7-created-9f1c2ab4'' ''movie-7-''"
    using p unfolding v7 id
    by (simp add: sample_events_env_def str_int_def str_nat.simps digit_char_def)
  have one: "''amount'' \<in> set (required_fields Payment) \<and> ''amount'' \<notin> fst ` set ?b
      \<and> (\<forall>g \<in> set (required_fields Payment). g \<noteq> ''amount'' \<longrightarrow> g \<in> fst ` set ?b)"
    by (simp add: payment_required_fields_def)
  have "create_event Payment (sample_events_env ?b)
       = (\<lparr> status = 400,
            json_body = JObj [(''error'', JStr (''Missing required field: '' @ ''amount''))] \<rparr>,
          [])"
    by (rule mp [OF conjunct2 [OF event_creation_contract [OF gb, of Payment _ _ "''amount''"]]])
       (rule one)
  then have r: "create_event Payment (sample_events_env ?b)
       = (\<lparr> status = 400,
            json_body = JObj [(''error'', JStr ''Missing required field: amount'')] \<rparr>, [])"
    by simp
  show ?thesis
    by (intro conjI) (rule s, rule e, rule p', rule r)
qed

end
